theory Spec2Isabelle
  imports Complex_Main "HOL-Library.Multiset"
begin

section \<open>Profile statistics of the ProgressPoint backend (\<open>GET /me\<close>)\<close>

text \<open>
  The development embeds the handler \<open>me\<close> of \<open>src/me/me.controller.ts\<close>: the
  consecutive-day streak, the aggregate training totals and the favourite exercise of
  a user's workout history.

  Conventions of the embedding.
  \<^item> A JavaScript \<open>number\<close> that holds a count or an integer column is an \<open>int\<close> or a
    \<open>nat\<close>; the weight of a set, which the data model describes as a non-negative real
    number, is a \<open>real\<close>. Arithmetic is exact: the rounding of IEEE doubles is not part
    of the model.
  \<^item> A \<open>Date\<close> is the number of milliseconds since the epoch, an \<open>int\<close>.
  \<^item> A \<open>Map\<close> and a \<open>Set\<close> of JavaScript iterate in insertion order; they are lists
    that keep that order.
  \<^item> A query of the database is a function that returns either a failure (the promise
    is rejected, and the handler's \<open>catch\<close> answers 500) or the rows.
\<close>

subsection \<open>Data model\<close>

type_synonym timestamp = int
type_synonym dayKey = int

record workoutSet =
  repetitions :: int
  weight :: real

record workoutExercise =
  exerciseId :: string
  sets :: "workoutSet list"

record workout =
  workout_id :: string
  startedAt :: timestamp
  durationMinutes :: "int option"
  workoutExercises :: "workoutExercise list"

record userInfo =
  user_id :: string
  email :: string
  username :: string
  createdAt :: timestamp

record exerciseInfo =
  exercise_id :: string
  name :: string
  category :: string

subsection \<open>Day keys and the streak (\<open>src/me/utils.ts\<close>)\<close>

text \<open>
  Modelled from the spec: the module \<open>./utils\<close>, which exports
  \<open>uniqueSortedDateKeys\<close> and \<open>computeStreakFromWorkouts\<close>, is not among the source
  files. A DayKey is the calendar day of a timestamp in one reference time zone; it is
  represented by the number of that day (days since the epoch, UTC), so that
  ``one day before'' is the predecessor.
\<close>

definition msPerDay :: int where
  "msPerDay = 86400000"

definition dayKey :: "timestamp \<Rightarrow> dayKey" where
  "dayKey t = t div msPerDay"

text \<open>
  Modelled from the spec: the Day-Key Normalizer (section 4.1), ``a deduplicated sequence
  of DayKeys sorted in descending (most-recent-first) order''. The argument is the list
  \<open>streakWorkoutsLite\<close> of the handler; an object \<open>{ startedAt }\<close> is its timestamp.
\<close>

definition uniqueSortedDateKeys :: "timestamp list \<Rightarrow> dayKey list" where
  "uniqueSortedDateKeys workouts = rev (sort (remdups (map dayKey workouts)))"

text \<open>
  Modelled from the spec: step 3 of the streak algorithm (section 4.2). \<open>expected\<close> is
  the running ``expected previous day''; the count grows for each day that matches it
  and the walk stops at the first day that does not.
\<close>

fun walkStreak :: "dayKey \<Rightarrow> nat \<Rightarrow> dayKey list \<Rightarrow> nat" where
  "walkStreak expected streak [] = streak"
| "walkStreak expected streak (d # ds) =
     (if d = expected then walkStreak (d - 1) (streak + 1) ds else streak)"

text \<open>
  Modelled from the spec: steps 1 to 4 of the streak algorithm, on the DayKey sequence.
\<close>

definition streakOfDayKeys :: "dayKey \<Rightarrow> dayKey list \<Rightarrow> nat" where
  "streakOfDayKeys today dayKeys =
     (case dayKeys of
        [] \<Rightarrow> 0
      | mostRecent # older \<Rightarrow>
          if mostRecent \<noteq> today \<and> mostRecent \<noteq> today - 1 then 0
          else walkStreak (mostRecent - 1) 1 older)"

text \<open>
  Modelled from the spec: \<open>computeStreakFromWorkouts\<close>. The reference clock, which the
  function reads once, is the parameter \<open>now\<close>.
\<close>

definition computeStreakFromWorkouts :: "timestamp \<Rightarrow> timestamp list \<Rightarrow> nat" where
  "computeStreakFromWorkouts now workouts =
     streakOfDayKeys (dayKey now) (uniqueSortedDateKeys workouts)"

subsection \<open>The aggregation of \<open>me\<close>\<close>

text \<open>
  \<open>workouts.reduce((acc, w) => acc + (w.durationMinutes ?? 0), 0)\<close>
\<close>

definition totalDuration :: "workout list \<Rightarrow> int" where
  "totalDuration workouts =
     foldl (\<lambda>acc w. acc + (case durationMinutes w of None \<Rightarrow> 0 | Some d \<Rightarrow> d)) 0 workouts"

text \<open>
  \<open>new Set<string>()\<close> with \<open>add\<close> and \<open>size\<close>: the elements in insertion order.
\<close>

definition setAdd :: "string \<Rightarrow> string list \<Rightarrow> string list" where
  "setAdd x s = (if x \<in> set s then s else s @ [x])"

definition exerciseIds :: "workout list \<Rightarrow> string list" where
  "exerciseIds workouts =
     fold (\<lambda>w s. fold (\<lambda>we s'. setAdd (exerciseId we) s') (workoutExercises w) s) workouts []"

definition totalExercisesUsed :: "workout list \<Rightarrow> nat" where
  "totalExercisesUsed workouts = length (exerciseIds workouts)"

text \<open>
  \<open>new Map<string, number>()\<close>: the entries in insertion order. \<open>set\<close> on a key that is
  present replaces the value where the entry stands; on a new key it appends the entry.
\<close>

type_synonym frequencyMap = "(string \<times> nat) list"

fun mapGet :: "frequencyMap \<Rightarrow> string \<Rightarrow> nat option" where
  "mapGet [] k = None"
| "mapGet ((k', v) # m) k = (if k' = k then Some v else mapGet m k)"

fun mapSet :: "frequencyMap \<Rightarrow> string \<Rightarrow> nat \<Rightarrow> frequencyMap" where
  "mapSet [] k v = [(k, v)]"
| "mapSet ((k', v') # m) k v = (if k' = k then (k, v) # m else (k', v') # mapSet m k v)"

text \<open>
  The variables that the loop over workouts, exercises and sets updates
  (lines 71 to 99).
\<close>

record totals =
  totalSets :: nat
  totalReps :: int
  totalVolume :: real
  heaviestWeight :: real
  exerciseFrequency :: frequencyMap

definition initialTotals :: totals where
  "initialTotals =
     \<lparr>totalSets = 0, totalReps = 0, totalVolume = 0, heaviestWeight = 0,
      exerciseFrequency = []\<rparr>"

text \<open>The body of \<open>we.sets.forEach(s => ...)\<close>.\<close>

definition setStep :: "workoutSet \<Rightarrow> totals \<Rightarrow> totals" where
  "setStep s t =
     (let t1 = t\<lparr>totalReps := totalReps t + repetitions s\<rparr>;
          t2 = t1\<lparr>totalVolume := totalVolume t1 + of_int (repetitions s) * weight s\<rparr>
      in if weight s > heaviestWeight t2 then t2\<lparr>heaviestWeight := weight s\<rparr> else t2)"

text \<open>
  \<open>exerciseFrequency.set(id, (exerciseFrequency.get(id) || 0) + 1)\<close>: the operator
  \<open>||\<close> replaces \<open>undefined\<close> (and a count of 0) by 0.
\<close>

definition incrementFrequency :: "string \<Rightarrow> frequencyMap \<Rightarrow> frequencyMap" where
  "incrementFrequency k m = mapSet m k ((case mapGet m k of None \<Rightarrow> 0 | Some c \<Rightarrow> c) + 1)"

text \<open>The body of \<open>w.workoutExercises.forEach(we => ...)\<close>.\<close>

definition exerciseStep :: "workoutExercise \<Rightarrow> totals \<Rightarrow> totals" where
  "exerciseStep we t =
     (let t1 = t\<lparr>totalSets := totalSets t + length (sets we)\<rparr>;
          t2 = t1\<lparr>exerciseFrequency :=
                 incrementFrequency (exerciseId we) (exerciseFrequency t1)\<rparr>
      in fold setStep (sets we) t2)"

definition workoutStep :: "workout \<Rightarrow> totals \<Rightarrow> totals" where
  "workoutStep w t = fold exerciseStep (workoutExercises w) t"

definition aggregate :: "workout list \<Rightarrow> totals" where
  "aggregate workouts = fold workoutStep workouts initialTotals"

text \<open>
  The search of the most frequent exercise (lines 101 to 110): the pair is
  \<open>(maxFrequency, favoriteExerciseId)\<close>, and \<open>forEach\<close> visits the entries of the map
  in insertion order.
\<close>

fun favoriteStep :: "string \<times> nat \<Rightarrow> nat \<times> string option \<Rightarrow> nat \<times> string option" where
  "favoriteStep (exerciseId', count') (maxFrequency, favoriteId) =
     (if count' > maxFrequency then (count', Some exerciseId')
      else (maxFrequency, favoriteId))"

definition favoriteExerciseId :: "frequencyMap \<Rightarrow> string option" where
  "favoriteExerciseId frequency = snd (fold favoriteStep frequency (0, None))"

subsection \<open>The handler\<close>

datatype dbError = DbError

record prisma =
  user_findUnique :: "string \<Rightarrow> dbError + userInfo option"
  workout_findMany :: "string \<Rightarrow> dbError + workout list"
  exercise_findUnique :: "string \<Rightarrow> dbError + exerciseInfo option"

record profile =
  json_user :: "userInfo option"
  json_totalWorkouts :: nat
  json_currentStreak :: nat
  json_days :: "dayKey list"
  json_lastWorkoutDate :: "dayKey option"
  json_totalDuration :: int
  json_totalExercisesUsed :: nat
  json_totalSets :: nat
  json_totalReps :: int
  json_totalVolume :: real
  json_heaviestWeight :: real
  json_favoriteExercise :: "exerciseInfo option"

datatype response = Unauthorized | InternalServerError | Json profile

text \<open>
  Lines 112 to 120. \<open>if (favoriteExerciseId)\<close> is false for \<open>null\<close> and for the empty
  string; the metadata is fetched only otherwise, and a row that is not found
  (\<open>null\<close>) is stored as it is.
\<close>

definition fetchFavoriteExercise :: "prisma \<Rightarrow> string option \<Rightarrow> dbError + exerciseInfo option" where
  "fetchFavoriteExercise db favId =
     (case favId of
        None \<Rightarrow> Inr None
      | Some i \<Rightarrow> if i = [] then Inr None else exercise_findUnique db i)"

text \<open>
  \<open>me\<close>: \<open>now\<close> is the clock, \<open>db\<close> the database, \<open>reqUser\<close> the value of \<open>req.user\<close>
  (\<open>None\<close> for \<open>undefined\<close>). \<open>days[0] || null\<close> is the first day key, or \<open>null\<close> when
  there is none.
\<close>

definition me :: "timestamp \<Rightarrow> prisma \<Rightarrow> string option \<Rightarrow> response" where
  "me now db reqUser =
     (case reqUser of
        None \<Rightarrow> Unauthorized
      | Some userId \<Rightarrow>
          if userId = [] then Unauthorized
          else
            (case user_findUnique db userId of
               Inl e \<Rightarrow> InternalServerError
             | Inr user \<Rightarrow>
                 (case workout_findMany db userId of
                    Inl e \<Rightarrow> InternalServerError
                  | Inr workouts \<Rightarrow>
                      (let streakWorkoutsLite = map startedAt workouts;
                           days = uniqueSortedDateKeys streakWorkoutsLite;
                           t = aggregate workouts
                       in case fetchFavoriteExercise db
                                 (favoriteExerciseId (exerciseFrequency t)) of
                            Inl e \<Rightarrow> InternalServerError
                          | Inr favoriteExercise \<Rightarrow>
                              Json \<lparr>json_user = user,
                                    json_totalWorkouts = length workouts,
                                    json_currentStreak =
                                      computeStreakFromWorkouts now streakWorkoutsLite,
                                    json_days = days,
                                    json_lastWorkoutDate =
                                      (case days of [] \<Rightarrow> None | d # _ \<Rightarrow> Some d),
                                    json_totalDuration = totalDuration workouts,
                                    json_totalExercisesUsed = totalExercisesUsed workouts,
                                    json_totalSets = totalSets t,
                                    json_totalReps = totalReps t,
                                    json_totalVolume = totalVolume t,
                                    json_heaviestWeight = heaviestWeight t,
                                    json_favoriteExercise = favoriteExercise\<rparr>))))"


subsection \<open>The records in the order of the traversal\<close>

text \<open>
  The loop visits the exercise records of the workouts, and the sets of those records,
  in the order of the lists. \<open>exerciseRecords\<close> and \<open>setRecords\<close> name the two
  sequences; the statements below speak about them.
\<close>

definition exerciseRecords :: "workout list \<Rightarrow> workoutExercise list" where
  "exerciseRecords workouts = concat (map workoutExercises workouts)"

definition setRecords :: "workout list \<Rightarrow> workoutSet list" where
  "setRecords workouts = concat (map sets (exerciseRecords workouts))"

subsection \<open>Sample data\<close>

text \<open>
  A history of two workouts, the more recent first. Squat and bench press both occur
  in two exercise records; bench press has more sets and more volume.
\<close>

definition squatRecord :: workoutExercise where
  "squatRecord = \<lparr>exerciseId = ''squat'', sets = [\<lparr>repetitions = 5, weight = 20\<rparr>]\<rparr>"

definition benchRecord :: workoutExercise where
  "benchRecord = \<lparr>exerciseId = ''bench'',
     sets = [\<lparr>repetitions = 10, weight = 100\<rparr>, \<lparr>repetitions = 8, weight = 110\<rparr>]\<rparr>"

definition recentWorkout :: workout where
  "recentWorkout = \<lparr>workout_id = ''w2'', startedAt = 864000000, durationMinutes = Some 60,
     workoutExercises = [squatRecord, benchRecord]\<rparr>"

definition earlierWorkout :: workout where
  "earlierWorkout = \<lparr>workout_id = ''w1'', startedAt = 777600001, durationMinutes = None,
     workoutExercises = [benchRecord, squatRecord]\<rparr>"

text \<open>
  The three workouts of the example of the specification: two on day 10, one on day 9.
\<close>

definition exampleWorkouts :: "workout list" where
  "exampleWorkouts =
     [\<lparr>workout_id = ''w3'', startedAt = 864000100, durationMinutes = Some 60,
        workoutExercises =
          [\<lparr>exerciseId = ''bench'', sets = [\<lparr>repetitions = 10, weight = 50\<rparr>]\<rparr>]\<rparr>,
      \<lparr>workout_id = ''w2'', startedAt = 864000000, durationMinutes = Some 30,
        workoutExercises =
          [\<lparr>exerciseId = ''bench'', sets = [\<lparr>repetitions = 8, weight = 55\<rparr>]\<rparr>]\<rparr>,
      \<lparr>workout_id = ''w1'', startedAt = 777600001, durationMinutes = None,
        workoutExercises =
          [\<lparr>exerciseId = ''squat'', sets = [\<lparr>repetitions = 12, weight = 80\<rparr>]\<rparr>]\<rparr>]"

text \<open>
  A database that holds the given workouts for every user, and neither a user row nor
  exercise metadata.
\<close>

definition sampleDb :: "workout list \<Rightarrow> prisma" where
  "sampleDb workouts =
     \<lparr>user_findUnique = (\<lambda>i. Inr None), workout_findMany = (\<lambda>i. Inr workouts),
      exercise_findUnique = (\<lambda>i. Inr None)\<rparr>"

section \<open>Evaluation on concrete inputs\<close>

lemmas sample_defs = sampleDb_def recentWorkout_def earlierWorkout_def squatRecord_def
  benchRecord_def exampleWorkouts_def

lemmas eval_defs = me_def Let_def fetchFavoriteExercise_def favoriteExerciseId_def
  aggregate_def workoutStep_def exerciseStep_def setStep_def incrementFrequency_def
  initialTotals_def totalDuration_def totalExercisesUsed_def exerciseIds_def setAdd_def
  computeStreakFromWorkouts_def streakOfDayKeys_def uniqueSortedDateKeys_def dayKey_def
  msPerDay_def exerciseRecords_def setRecords_def

section \<open>Properties of the day keys and of the streak\<close>

subsection \<open>Auxiliary facts\<close>

lemma count_list_distinct: "distinct xs \<Longrightarrow> x \<in> set xs \<Longrightarrow> count_list xs x = 1"
  by (induction xs) auto

lemma sorted_wrt_rev_sort: "distinct xs \<Longrightarrow> sorted_wrt (>) (rev (sort (xs::int list)))"
  by (simp add: sorted_wrt_rev strict_sorted_iff)

lemma dayKey_shift: "dayKey (t - k * msPerDay) = dayKey t - k"
  by (simp add: dayKey_def msPerDay_def)

lemma dayKey_prev: "dayKey (t - msPerDay) = dayKey t - 1"
  using dayKey_shift[of t 1] by simp

lemma walkStreak_ge: "streak \<le> walkStreak e streak ds"
  by (induction ds arbitrary: e streak) (auto simp: Suc_leD)

text \<open>
  The walk adds to the count the length \<open>j\<close> of the longest prefix of the remaining days
  that descends from \<open>e\<close> in steps of exactly one day.
\<close>

lemma walkStreak_chain:
  "\<exists>j. walkStreak e s ds = s + j \<and> j \<le> length ds \<and> (\<forall>i<j. ds ! i = e - int i) \<and>
       (j < length ds \<longrightarrow> ds ! j \<noteq> e - int j)"
proof (induction ds arbitrary: e s)
  case Nil
  then show ?case by simp
next
  case (Cons d ds)
  show ?case
  proof (cases "d = e")
    case False
    then show ?thesis by (intro exI[of _ 0]) simp
  next
    case True
    from Cons.IH[of "d - 1" "s + 1"] obtain j where
      j: "walkStreak (d - 1) (s + 1) ds = s + 1 + j" "j \<le> length ds"
         "\<forall>i<j. ds ! i = d - 1 - int i" "j < length ds \<longrightarrow> ds ! j \<noteq> d - 1 - int j"
      by blast
    show ?thesis
    proof (intro exI[of _ "Suc j"] conjI allI impI)
      show "walkStreak e s (d # ds) = s + Suc j" using True j(1) by simp
      show "Suc j \<le> length (d # ds)" using j(2) by simp
      show "(d # ds) ! i = e - int i" if "i < Suc j" for i
        using that True j(3) by (cases i) (auto simp: algebra_simps)
      show "(d # ds) ! Suc j \<noteq> e - int (Suc j)" if "Suc j < length (d # ds)"
        using that True j(4) by (auto simp: algebra_simps)
    qed
  qed
qed

subsection \<open>The normalizer\<close>

text \<open>
  Claim C3. For every collection of workout start timestamps, the empty one included,
  the sequence of the Day-Key Normalizer has no duplicate DayKey and is sorted strictly
  descending; it holds the day keys of the timestamps and no other; the empty input
  gives the empty sequence; and two timestamps of the same calendar day share a single
  entry.
\<close>

theorem uniqueSortedDateKeys_distinct_descending:
  "distinct (uniqueSortedDateKeys ts) \<and>
   sorted_wrt (>) (uniqueSortedDateKeys ts) \<and>
   set (uniqueSortedDateKeys ts) = dayKey ` set ts \<and>
   uniqueSortedDateKeys [] = [] \<and>
   (t1 \<in> set ts \<longrightarrow> t2 \<in> set ts \<longrightarrow> dayKey t1 = dayKey t2 \<longrightarrow>
      count_list (uniqueSortedDateKeys ts) (dayKey t1) = 1)"
  unfolding uniqueSortedDateKeys_def
  by (auto simp: sorted_wrt_rev_sort count_list_distinct)

theorem uniqueSortedDateKeys_distinct_descending_witness:
  "uniqueSortedDateKeys [259200005, 5, 259200099, - 1] = [3, 0, - 1] \<and>
   distinct (uniqueSortedDateKeys [259200005, 5, 259200099, - 1]) \<and>
   sorted_wrt (>) (uniqueSortedDateKeys [259200005, 5, 259200099, - 1]) \<and>
   (259200005::int) \<in> set [259200005, 5, 259200099, - 1] \<and>
   (259200099::int) \<in> set [259200005, 5, 259200099, - 1] \<and>
   dayKey 259200005 = dayKey 259200099 \<and>
   count_list (uniqueSortedDateKeys [259200005, 5, 259200099, - 1]) (dayKey 259200005) = 1"
  using uniqueSortedDateKeys_distinct_descending
          [of "[259200005, 5, 259200099, - 1]" 259200005 259200099]
  by (simp add: uniqueSortedDateKeys_def dayKey_def msPerDay_def)

subsection \<open>The streak\<close>

text \<open>
  Claim C1. For every workout history: if the deduplicated descending DayKey sequence is
  not empty and its first, most recent, element is neither today nor yesterday on the
  reference clock, the current streak is 0; and whenever the most recent DayKey is today
  or yesterday, the current streak is at least 1. A single workout yesterday gives the
  streak 1, a single workout two days ago the streak 0.
\<close>

theorem computeStreakFromWorkouts_stale_or_active:
  "(uniqueSortedDateKeys (map startedAt workouts) = mostRecent # older \<and>
    mostRecent \<noteq> dayKey now \<and> mostRecent \<noteq> dayKey now - 1 \<longrightarrow>
      computeStreakFromWorkouts now (map startedAt workouts) = 0) \<and>
   (uniqueSortedDateKeys (map startedAt workouts) = mostRecent # older \<and>
    (mostRecent = dayKey now \<or> mostRecent = dayKey now - 1) \<longrightarrow>
      1 \<le> computeStreakFromWorkouts now (map startedAt workouts)) \<and>
   computeStreakFromWorkouts now [now - 1 * msPerDay] = 1 \<and>
   computeStreakFromWorkouts now [now - 2 * msPerDay] = 0"
proof (intro conjI impI)
  assume "uniqueSortedDateKeys (map startedAt workouts) = mostRecent # older \<and>
    mostRecent \<noteq> dayKey now \<and> mostRecent \<noteq> dayKey now - 1"
  then show "computeStreakFromWorkouts now (map startedAt workouts) = 0"
    by (simp add: computeStreakFromWorkouts_def streakOfDayKeys_def)
next
  assume a: "uniqueSortedDateKeys (map startedAt workouts) = mostRecent # older \<and>
    (mostRecent = dayKey now \<or> mostRecent = dayKey now - 1)"
  have "1 \<le> walkStreak (mostRecent - 1) 1 older"
    by (rule walkStreak_ge)
  with a show "1 \<le> computeStreakFromWorkouts now (map startedAt workouts)"
    by (auto simp: computeStreakFromWorkouts_def streakOfDayKeys_def)
next
  show "computeStreakFromWorkouts now [now - 1 * msPerDay] = 1"
    by (simp add: computeStreakFromWorkouts_def uniqueSortedDateKeys_def dayKey_prev
          streakOfDayKeys_def)
next
  show "computeStreakFromWorkouts now [now - 2 * msPerDay] = 0"
    by (simp add: computeStreakFromWorkouts_def uniqueSortedDateKeys_def dayKey_shift
          streakOfDayKeys_def)
qed

text \<open>
  The history of the witness has one workout: two days before the clock's day in the
  first part (a stale streak), the day before it in the second.
\<close>

theorem computeStreakFromWorkouts_stale_or_active_witness:
  "uniqueSortedDateKeys
     (map startedAt [\<lparr>workout_id = ''w1'', startedAt = 691200000,
        durationMinutes = Some 45, workoutExercises = []\<rparr>]) = 8 # [] \<and>
   (8::int) \<noteq> dayKey 864000123 \<and> 8 \<noteq> dayKey 864000123 - 1 \<and>
   computeStreakFromWorkouts 864000123
     (map startedAt [\<lparr>workout_id = ''w1'', startedAt = 691200000,
        durationMinutes = Some 45, workoutExercises = []\<rparr>]) = 0 \<and>
   uniqueSortedDateKeys
     (map startedAt [\<lparr>workout_id = ''w2'', startedAt = 777600001,
        durationMinutes = None, workoutExercises = []\<rparr>]) = 9 # [] \<and>
   (9::int) = dayKey 864000123 - 1 \<and>
   1 \<le> computeStreakFromWorkouts 864000123
     (map startedAt [\<lparr>workout_id = ''w2'', startedAt = 777600001,
        durationMinutes = None, workoutExercises = []\<rparr>])"
  using computeStreakFromWorkouts_stale_or_active
          [of "[\<lparr>workout_id = ''w1'', startedAt = 691200000,
                 durationMinutes = Some 45, workoutExercises = []\<rparr>]" 8 "[]" 864000123]
        computeStreakFromWorkouts_stale_or_active
          [of "[\<lparr>workout_id = ''w2'', startedAt = 777600001,
                 durationMinutes = None, workoutExercises = []\<rparr>]" 9 "[]" 864000123]
  by (simp add: uniqueSortedDateKeys_def dayKey_def msPerDay_def)

text \<open>
  Claim C2. For every non-empty DayKey sequence whose most recent day is today or
  yesterday, the streak is the number \<open>k\<close> of leading days of the sequence in which
  each day is exactly one day before the one counted before it: the first \<open>k\<close> days are
  \<open>mostRecent\<close>, \<open>mostRecent - 1\<close>, ..., at least the first is counted, and the walk
  stops at the first day that breaks the chain, so the day after them (if any) is not
  \<open>mostRecent - k\<close>. The streak of a history is the streak of its normalized DayKey
  sequence. In particular the DayKeys today, today - 1, today - 2, today - 4 give the
  streak 3.
\<close>

theorem computeStreakFromWorkouts_counts_chain:
  "((mostRecent = today \<or> mostRecent = today - 1) \<and>
    k = streakOfDayKeys today (mostRecent # older) \<longrightarrow>
      1 \<le> k \<and> k \<le> length (mostRecent # older) \<and>
      (\<forall>i<k. (mostRecent # older) ! i = mostRecent - int i) \<and>
      (k < length (mostRecent # older) \<longrightarrow> (mostRecent # older) ! k \<noteq> mostRecent - int k)) \<and>
   computeStreakFromWorkouts now workouts =
     streakOfDayKeys (dayKey now) (uniqueSortedDateKeys workouts) \<and>
   streakOfDayKeys today [today, today - 1, today - 2, today - 4] = 3 \<and>
   computeStreakFromWorkouts now
     [now, now - 1 * msPerDay, now - 2 * msPerDay, now - 4 * msPerDay] = 3"
proof (intro conjI impI)
  assume a: "(mostRecent = today \<or> mostRecent = today - 1) \<and>
    k = streakOfDayKeys today (mostRecent # older)"
  then have k: "k = walkStreak (mostRecent - 1) 1 older"
    by (auto simp: streakOfDayKeys_def)
  from walkStreak_chain[of "mostRecent - 1" 1 older] obtain j where
    j: "walkStreak (mostRecent - 1) 1 older = 1 + j" "j \<le> length older"
       "\<forall>i<j. older ! i = mostRecent - 1 - int i"
       "j < length older \<longrightarrow> older ! j \<noteq> mostRecent - 1 - int j"
    by blast
  have kj: "k = Suc j" using k j(1) by simp
  show "1 \<le> k" using kj by simp
  show "k \<le> length (mostRecent # older)" using kj j(2) by simp
  show "\<forall>i<k. (mostRecent # older) ! i = mostRecent - int i"
  proof (intro allI impI)
    fix i assume "i < k"
    then show "(mostRecent # older) ! i = mostRecent - int i"
      using kj j(3) by (cases i) (auto simp: algebra_simps)
  qed
  assume "k < length (mostRecent # older)"
  then show "(mostRecent # older) ! k \<noteq> mostRecent - int k"
    using kj j(4) by (auto simp: algebra_simps)
next
  show "computeStreakFromWorkouts now workouts =
     streakOfDayKeys (dayKey now) (uniqueSortedDateKeys workouts)"
    by (simp add: computeStreakFromWorkouts_def)
next
  show "streakOfDayKeys today [today, today - 1, today - 2, today - 4] = 3"
    by (simp add: streakOfDayKeys_def)
next
  show "computeStreakFromWorkouts now
     [now, now - 1 * msPerDay, now - 2 * msPerDay, now - 4 * msPerDay] = 3"
    unfolding computeStreakFromWorkouts_def uniqueSortedDateKeys_def
    by (simp add: dayKey_shift dayKey_prev streakOfDayKeys_def)
qed

text \<open>
  The witness: on day 10, workouts on the days 10 (twice), 9, 8 and 6 have the streak 3.
\<close>

theorem computeStreakFromWorkouts_counts_chain_witness:
  "uniqueSortedDateKeys [864000123, 518400000, 777600001, 864000000, 691200000]
     = 10 # [9, 8, 6] \<and>
   (10::int) = dayKey 864000999 \<and>
   (3::nat) = streakOfDayKeys 10 (10 # [9, 8, 6]) \<and>
   computeStreakFromWorkouts 864000999
       [864000123, 518400000, 777600001, 864000000, 691200000] = 3 \<and>
   (1::nat) \<le> 3 \<and> (3::nat) \<le> length (10 # [9, 8, 6 :: int]) \<and>
   (10 # [9, 8, 6]) ! 0 = (10::int) - int 0 \<and>
   (10 # [9, 8, 6]) ! 1 = (10::int) - int 1 \<and>
   (10 # [9, 8, 6]) ! 2 = (10::int) - int 2 \<and>
   (3::nat) < length (10 # [9, 8, 6 :: int]) \<and>
   (10 # [9, 8, 6]) ! 3 \<noteq> (10::int) - int 3"
  using computeStreakFromWorkouts_counts_chain
          [of 10 10 3 "[9, 8, 6]" 864000999
              "[864000123, 518400000, 777600001, 864000000, 691200000]"]
  by (simp add: uniqueSortedDateKeys_def dayKey_def msPerDay_def
        computeStreakFromWorkouts_def streakOfDayKeys_def)

section \<open>The aggregation\<close>

subsection \<open>The loop as sums over the traversal\<close>

lemma fold_fold_concat: "fold (\<lambda>x. fold g (f x)) xs s = fold g (concat (map f xs)) s"
  by (induction xs arbitrary: s) auto

lemma setStep_totalSets [simp]: "totalSets (setStep s t) = totalSets t"
  and setStep_exerciseFrequency [simp]: "exerciseFrequency (setStep s t) = exerciseFrequency t"
  and setStep_totalReps [simp]: "totalReps (setStep s t) = totalReps t + repetitions s"
  and setStep_totalVolume [simp]:
    "totalVolume (setStep s t) = totalVolume t + of_int (repetitions s) * weight s"
  and setStep_heaviestWeight [simp]:
    "heaviestWeight (setStep s t) = max (weight s) (heaviestWeight t)"
  by (simp_all add: setStep_def Let_def max_def)

lemma fold_setStep_totalSets [simp]: "totalSets (fold setStep ss t) = totalSets t"
  by (induction ss arbitrary: t) auto

lemma fold_setStep_exerciseFrequency [simp]:
  "exerciseFrequency (fold setStep ss t) = exerciseFrequency t"
  by (induction ss arbitrary: t) auto

lemma fold_setStep_totalReps:
  "totalReps (fold setStep ss t) = totalReps t + sum_list (map repetitions ss)"
  by (induction ss arbitrary: t) auto

lemma fold_setStep_totalVolume:
  "totalVolume (fold setStep ss t) =
     totalVolume t + (\<Sum>s\<leftarrow>ss. of_int (repetitions s) * weight s)"
  by (induction ss arbitrary: t) auto

lemma fold_setStep_heaviestWeight:
  "heaviestWeight (fold setStep ss t) = fold max (map weight ss) (heaviestWeight t)"
  by (induction ss arbitrary: t) auto

lemma exerciseStep_fields:
  "totalSets (exerciseStep we t) = totalSets t + length (sets we)"
  "totalReps (exerciseStep we t) = totalReps t + sum_list (map repetitions (sets we))"
  "totalVolume (exerciseStep we t) =
     totalVolume t + (\<Sum>s\<leftarrow>sets we. of_int (repetitions s) * weight s)"
  "heaviestWeight (exerciseStep we t) = fold max (map weight (sets we)) (heaviestWeight t)"
  "exerciseFrequency (exerciseStep we t) = incrementFrequency (exerciseId we) (exerciseFrequency t)"
  by (simp_all add: exerciseStep_def Let_def fold_setStep_totalReps fold_setStep_totalVolume
        fold_setStep_heaviestWeight)

lemma fold_exerciseStep_totalSets:
  "totalSets (fold exerciseStep es t) = totalSets t + (\<Sum>we\<leftarrow>es. length (sets we))"
  by (induction es arbitrary: t) (auto simp: exerciseStep_fields)

lemma fold_exerciseStep_totalReps:
  "totalReps (fold exerciseStep es t) =
     totalReps t + sum_list (map repetitions (concat (map sets es)))"
  by (induction es arbitrary: t) (auto simp: exerciseStep_fields)

lemma fold_exerciseStep_totalVolume:
  "totalVolume (fold exerciseStep es t) =
     totalVolume t + (\<Sum>s\<leftarrow>concat (map sets es). of_int (repetitions s) * weight s)"
  by (induction es arbitrary: t) (auto simp: exerciseStep_fields)

lemma fold_exerciseStep_heaviestWeight:
  "heaviestWeight (fold exerciseStep es t) =
     fold max (map weight (concat (map sets es))) (heaviestWeight t)"
  by (induction es arbitrary: t) (auto simp: exerciseStep_fields)

lemma fold_exerciseStep_exerciseFrequency:
  "exerciseFrequency (fold exerciseStep es t) =
     fold incrementFrequency (map exerciseId es) (exerciseFrequency t)"
  by (induction es arbitrary: t) (auto simp: exerciseStep_fields)

lemma aggregate_flat: "aggregate workouts = fold exerciseStep (exerciseRecords workouts) initialTotals"
  unfolding aggregate_def exerciseRecords_def
  using fold_fold_concat[of exerciseStep workoutExercises workouts initialTotals]
  by (simp add: workoutStep_def[abs_def])

lemma aggregate_totalSets: "totalSets (aggregate workouts) = length (setRecords workouts)"
  by (simp add: aggregate_flat fold_exerciseStep_totalSets initialTotals_def setRecords_def
        length_concat comp_def)

lemma aggregate_totalReps:
  "totalReps (aggregate workouts) = sum_list (map repetitions (setRecords workouts))"
  by (simp add: aggregate_flat fold_exerciseStep_totalReps initialTotals_def setRecords_def)

lemma aggregate_totalVolume:
  "totalVolume (aggregate workouts) =
     (\<Sum>s\<leftarrow>setRecords workouts. of_int (repetitions s) * weight s)"
  by (simp add: aggregate_flat fold_exerciseStep_totalVolume initialTotals_def setRecords_def)

lemma fold_max_Max: "fold max xs (h::real) = Max (insert h (set xs))"
  using Max.set_eq_fold[of h xs] by simp

lemma aggregate_heaviestWeight:
  "heaviestWeight (aggregate workouts) = Max (insert 0 (weight ` set (setRecords workouts)))"
  by (simp add: aggregate_flat fold_exerciseStep_heaviestWeight initialTotals_def setRecords_def
      fold_max_Max)

lemma aggregate_exerciseFrequency:
  "exerciseFrequency (aggregate workouts) =
     fold incrementFrequency (map exerciseId (exerciseRecords workouts)) []"
  by (simp add: aggregate_flat fold_exerciseStep_exerciseFrequency initialTotals_def)


lemma fold_setAdd_distinct_set:
  "distinct s \<Longrightarrow> distinct (fold setAdd xs s) \<and> set (fold setAdd xs s) = set s \<union> set xs"
  by (induction xs arbitrary: s) (auto simp: setAdd_def)








subsection \<open>The frequency map and the favourite\<close>

lemma map_fst_mapSet: "map fst (mapSet m k v) = setAdd k (map fst m)"
  by (induction m k v rule: mapSet.induct) (auto simp: setAdd_def)

lemma mapGet_mapSet: "mapGet (mapSet m k v) k' = (if k' = k then Some v else mapGet m k')"
  by (induction m k v rule: mapSet.induct) auto

lemma mapGet_entry: "distinct (map fst m) \<Longrightarrow> (k, v) \<in> set m \<Longrightarrow> mapGet m k = Some v"
  by (induction m k rule: mapGet.induct) (auto simp: rev_image_eqI)

lemma map_fst_incrementFrequency: "map fst (incrementFrequency k m) = setAdd k (map fst m)"
  by (simp add: incrementFrequency_def map_fst_mapSet)

lemma fold_incrementFrequency_keys: "map fst (fold incrementFrequency ids m) = fold setAdd ids (map fst m)"
  by (induction ids arbitrary: m) (auto simp: map_fst_incrementFrequency)

lemma fold_incrementFrequency_get:
  "mapGet (fold incrementFrequency ids []) k = (if k \<in> set ids then Some (count_list ids k) else None)"
proof (induction ids rule: rev_induct)
  case Nil
  then show ?case by simp
next
  case (snoc x xs)
  then show ?case by (auto simp: incrementFrequency_def mapGet_mapSet)
qed

lemma setAdd_member: "x \<in> set s \<Longrightarrow> setAdd x s = s"
  and setAdd_fresh: "x \<notin> set s \<Longrightarrow> setAdd x s = s @ [x]"
  by (simp_all add: setAdd_def)

lemma fold_setAdd_split:
  "fold setAdd ids [] = K1 @ k # K2 \<Longrightarrow>
     \<exists>pre post. ids = pre @ k # post \<and> k \<notin> set pre \<and> set pre = set K1"
proof (induction ids arbitrary: K1 K2 rule: rev_induct)
  case Nil
  then show ?case by simp
next
  case (snoc x xs)
  let ?K = "fold setAdd xs []"
  have K: "distinct ?K" "set ?K = set xs"
    using fold_setAdd_distinct_set[of "[]" xs] by simp_all
  show ?case
  proof (cases "x \<in> set ?K")
    case True
    with snoc.prems have "?K = K1 @ k # K2" by (simp add: setAdd_member)
    from snoc.IH[OF this] obtain pre post where
      "xs = pre @ k # post" "k \<notin> set pre" "set pre = set K1" by blast
    then have "xs @ [x] = pre @ k # (post @ [x]) \<and> k \<notin> set pre \<and> set pre = set K1"
      by simp
    then show ?thesis by blast
  next
    case False
    with snoc.prems have eq: "?K @ [x] = K1 @ k # K2" by (simp add: setAdd_fresh)
    show ?thesis
    proof (cases K2 rule: rev_cases)
      case Nil
      with eq have "?K = K1" "x = k" by simp_all
      with False K have "xs @ [x] = xs @ k # [] \<and> k \<notin> set xs \<and> set xs = set K1"
        by simp
      then show ?thesis by blast
    next
      case (snoc K2' y)
      with eq have "?K = K1 @ k # K2'" by simp
      from snoc.IH[OF this] obtain pre post where
        "xs = pre @ k # post" "k \<notin> set pre" "set pre = set K1" by blast
      then have "xs @ [x] = pre @ k # (post @ [x]) \<and> k \<notin> set pre \<and> set pre = set K1"
        by simp
      then show ?thesis by blast
    qed
  qed
qed

lemma fold_favoriteStep:
  "((\<forall>e\<in>set m. snd e \<le> mx) \<and> fold favoriteStep m (mx, fav) = (mx, fav)) \<or>
   (\<exists>m1 k v m2. m = m1 @ (k, v) # m2 \<and> fold favoriteStep m (mx, fav) = (v, Some k) \<and>
      mx < v \<and> (\<forall>e\<in>set m1. snd e < v) \<and> (\<forall>e\<in>set m2. snd e \<le> v))"
proof (induction m arbitrary: mx fav)
  case Nil
  then show ?case by simp
next
  case (Cons e m)
  obtain k0 v0 where e: "e = (k0, v0)" by (cases e)
  show ?case
  proof (cases "v0 > mx")
    case True
    then have step: "fold favoriteStep (e # m) (mx, fav) = fold favoriteStep m (v0, Some k0)"
      by (simp add: e)
    from Cons.IH[of v0 "Some k0"] show ?thesis
    proof (elim disjE exE conjE)
      assume "\<forall>e\<in>set m. snd e \<le> v0" "fold favoriteStep m (v0, Some k0) = (v0, Some k0)"
      then have "e # m = [] @ (k0, v0) # m \<and> fold favoriteStep (e # m) (mx, fav) = (v0, Some k0) \<and>
          mx < v0 \<and> (\<forall>e\<in>set []. snd e < v0) \<and> (\<forall>e\<in>set m. snd e \<le> v0)"
        using step True e by simp
      then show ?thesis by blast
    next
      fix m1 k v m2
      assume "m = m1 @ (k, v) # m2" "fold favoriteStep m (v0, Some k0) = (v, Some k)"
        "v0 < v" "\<forall>e\<in>set m1. snd e < v" "\<forall>e\<in>set m2. snd e \<le> v"
      then have "e # m = (e # m1) @ (k, v) # m2 \<and>
          fold favoriteStep (e # m) (mx, fav) = (v, Some k) \<and>
          mx < v \<and> (\<forall>e\<in>set (e # m1). snd e < v) \<and> (\<forall>e\<in>set m2. snd e \<le> v)"
        using step True e by auto
      then show ?thesis by blast
    qed
  next
    case False
    then have step: "fold favoriteStep (e # m) (mx, fav) = fold favoriteStep m (mx, fav)"
      by (simp add: e)
    from Cons.IH[of mx fav] show ?thesis
    proof (elim disjE exE conjE)
      assume "\<forall>e\<in>set m. snd e \<le> mx" "fold favoriteStep m (mx, fav) = (mx, fav)"
      then show ?thesis using step False e by auto
    next
      fix m1 k v m2
      assume "m = m1 @ (k, v) # m2" "fold favoriteStep m (mx, fav) = (v, Some k)"
        "mx < v" "\<forall>e\<in>set m1. snd e < v" "\<forall>e\<in>set m2. snd e \<le> v"
      then have "e # m = (e # m1) @ (k, v) # m2 \<and>
          fold favoriteStep (e # m) (mx, fav) = (v, Some k) \<and>
          mx < v \<and> (\<forall>e\<in>set (e # m1). snd e < v) \<and> (\<forall>e\<in>set m2. snd e \<le> v)"
        using step False e by auto
      then show ?thesis by blast
    qed
  qed
qed

lemma favorite_of_ids:
  assumes "ids \<noteq> []"
  shows "\<exists>f pre post. favoriteExerciseId (fold incrementFrequency ids []) = Some f \<and>
           ids = pre @ f # post \<and> f \<notin> set pre \<and>
           (\<forall>g\<in>set pre. count_list ids g < count_list ids f) \<and>
           (\<forall>g\<in>set ids. count_list ids g \<le> count_list ids f)"
proof -
  let ?m = "fold incrementFrequency ids []"
  have keys: "map fst ?m = fold setAdd ids []"
    using fold_incrementFrequency_keys[of ids "[]"] by simp
  have dist: "distinct (map fst ?m)" and setk: "set (map fst ?m) = set ids"
    using fold_setAdd_distinct_set[of "[]" ids] keys by simp_all
  have val: "v = count_list ids k" "k \<in> set ids" if "(k, v) \<in> set ?m" for k v
  proof -
    have "mapGet ?m k = Some v" using mapGet_entry[OF dist that] .
    then show "v = count_list ids k" "k \<in> set ids"
      by (auto simp: fold_incrementFrequency_get split: if_splits)
  qed
  have entry: "(g, count_list ids g) \<in> set ?m" if "g \<in> set ids" for g
  proof -
    from that setk have "g \<in> fst ` set ?m" by simp
    then obtain v where "(g, v) \<in> set ?m" by auto
    with val(1)[OF this] show ?thesis by simp
  qed
  obtain x where x: "x \<in> set ids" using assms by (cases ids) auto
  have "count_list ids x \<noteq> 0" using x by (simp add: count_list_0_iff)
  then have pos: "0 < count_list ids x" by simp
  from fold_favoriteStep[of ?m 0 None] show ?thesis
  proof (elim disjE exE conjE)
    assume "\<forall>e\<in>set ?m. snd e \<le> 0"
    with entry[OF x] pos show ?thesis by auto
  next
    fix m1 k v m2
    assume m: "?m = m1 @ (k, v) # m2" and res: "fold favoriteStep ?m (0, None) = (v, Some k)"
      and lt: "\<forall>e\<in>set m1. snd e < v" and le: "\<forall>e\<in>set m2. snd e \<le> v"
    have kv: "(k, v) \<in> set ?m" using m by simp
    have v: "v = count_list ids k" using val(1)[OF kv] .
    have "fold setAdd ids [] = map fst m1 @ k # map fst m2"
      using keys m by simp
    from fold_setAdd_split[OF this] obtain pre post where
      pre: "ids = pre @ k # post" "k \<notin> set pre" "set pre = set (map fst m1)" by blast
    have before: "count_list ids g < count_list ids k" if "g \<in> set pre" for g
    proof -
      from that pre(3) obtain v' where g: "(g, v') \<in> set m1" by auto
      then have "(g, v') \<in> set ?m" using m by simp
      from val(1)[OF this] lt g v show ?thesis by auto
    qed
    have all: "count_list ids g \<le> count_list ids k" if "g \<in> set ids" for g
    proof -
      from entry[OF that] m have "(g, count_list ids g) \<in> set m1 \<or>
         (g, count_list ids g) = (k, v) \<or> (g, count_list ids g) \<in> set m2" by auto
      with lt le v show ?thesis by (auto simp: less_imp_le)
    qed
    have "favoriteExerciseId ?m = Some k" by (simp add: favoriteExerciseId_def res)
    with pre before all show ?thesis by blast
  qed
qed

lemma exerciseRecords_empty:
  "\<forall>w\<in>set workouts. workoutExercises w = [] \<Longrightarrow> exerciseRecords workouts = []"
  by (simp add: exerciseRecords_def)

text \<open>
  Claim C4. The frequency of an exercise identifier is the number of exercise records
  that carry it (one per record, whatever the number of sets). When the history has an
  exercise record, the favourite is an identifier \<open>f\<close> of highest frequency, and every
  identifier met before the first occurrence of \<open>f\<close> in the traversal has a strictly
  lower frequency: among the identifiers of highest frequency the one met first wins.
  The favourite depends on the sequence of identifiers only, not on repetitions or
  weights.
\<close>

theorem favoriteExerciseId_most_frequent_first_seen:
  "(mapGet (exerciseFrequency (aggregate workouts)) g =
      (if g \<in> set (map exerciseId (exerciseRecords workouts))
       then Some (count_list (map exerciseId (exerciseRecords workouts)) g) else None)) \<and>
   (exerciseRecords workouts \<noteq> [] \<longrightarrow>
      (\<exists>f pre post.
         favoriteExerciseId (exerciseFrequency (aggregate workouts)) = Some f \<and>
         map exerciseId (exerciseRecords workouts) = pre @ f # post \<and> f \<notin> set pre \<and>
         (\<forall>g\<in>set pre. count_list (map exerciseId (exerciseRecords workouts)) g
                        < count_list (map exerciseId (exerciseRecords workouts)) f) \<and>
         (\<forall>g\<in>set (map exerciseId (exerciseRecords workouts)).
            count_list (map exerciseId (exerciseRecords workouts)) g
              \<le> count_list (map exerciseId (exerciseRecords workouts)) f))) \<and>
   (map exerciseId (exerciseRecords workouts') = map exerciseId (exerciseRecords workouts) \<longrightarrow>
      favoriteExerciseId (exerciseFrequency (aggregate workouts')) =
      favoriteExerciseId (exerciseFrequency (aggregate workouts)))"
proof (intro conjI impI)
  show "mapGet (exerciseFrequency (aggregate workouts)) g =
      (if g \<in> set (map exerciseId (exerciseRecords workouts))
       then Some (count_list (map exerciseId (exerciseRecords workouts)) g) else None)"
    unfolding aggregate_exerciseFrequency by (rule fold_incrementFrequency_get)
next
  assume "exerciseRecords workouts \<noteq> []"
  then have "map exerciseId (exerciseRecords workouts) \<noteq> []" by simp
  from favorite_of_ids[OF this]
  show "\<exists>f pre post.
         favoriteExerciseId (exerciseFrequency (aggregate workouts)) = Some f \<and>
         map exerciseId (exerciseRecords workouts) = pre @ f # post \<and> f \<notin> set pre \<and>
         (\<forall>g\<in>set pre. count_list (map exerciseId (exerciseRecords workouts)) g
                        < count_list (map exerciseId (exerciseRecords workouts)) f) \<and>
         (\<forall>g\<in>set (map exerciseId (exerciseRecords workouts)).
            count_list (map exerciseId (exerciseRecords workouts)) g
              \<le> count_list (map exerciseId (exerciseRecords workouts)) f)"
    unfolding aggregate_exerciseFrequency .
next
  assume "map exerciseId (exerciseRecords workouts') = map exerciseId (exerciseRecords workouts)"
  then show "favoriteExerciseId (exerciseFrequency (aggregate workouts')) =
      favoriteExerciseId (exerciseFrequency (aggregate workouts))"
    by (simp add: aggregate_exerciseFrequency)
qed

theorem favoriteExerciseId_most_frequent_first_seen_witness:
  "exerciseRecords [recentWorkout, earlierWorkout] \<noteq> [] \<and>
   map exerciseId (exerciseRecords [recentWorkout, earlierWorkout])
     = [''squat'', ''bench'', ''bench'', ''squat''] \<and>
   mapGet (exerciseFrequency (aggregate [recentWorkout, earlierWorkout])) ''bench'' = Some 2 \<and>
   mapGet (exerciseFrequency (aggregate [recentWorkout, earlierWorkout])) ''squat'' = Some 2 \<and>
   favoriteExerciseId (exerciseFrequency (aggregate [recentWorkout, earlierWorkout]))
     = Some ''squat'' \<and>
   map exerciseId (exerciseRecords
     [recentWorkout\<lparr>workoutExercises := [squatRecord\<lparr>sets := []\<rparr>, benchRecord]\<rparr>,
      earlierWorkout])
     = map exerciseId (exerciseRecords [recentWorkout, earlierWorkout]) \<and>
   favoriteExerciseId (exerciseFrequency (aggregate
     [recentWorkout\<lparr>workoutExercises := [squatRecord\<lparr>sets := []\<rparr>, benchRecord]\<rparr>,
      earlierWorkout])) = Some ''squat''"
  using favoriteExerciseId_most_frequent_first_seen
          [of "[recentWorkout, earlierWorkout]" "''bench''"
              "[recentWorkout\<lparr>workoutExercises := [squatRecord\<lparr>sets := []\<rparr>, benchRecord]\<rparr>,
                earlierWorkout]"]
  by (simp add: sample_defs eval_defs)

subsection \<open>Invariance under reordering\<close>






section \<open>The handler\<close>

lemma me_Json:
  assumes "userId \<noteq> []" "user_findUnique db userId = Inr user"
    "workout_findMany db userId = Inr workouts"
    "fetchFavoriteExercise db (favoriteExerciseId (exerciseFrequency (aggregate workouts)))
       = Inr favorite"
  shows "me now db (Some userId) =
     Json \<lparr>json_user = user,
           json_totalWorkouts = length workouts,
           json_currentStreak = computeStreakFromWorkouts now (map startedAt workouts),
           json_days = uniqueSortedDateKeys (map startedAt workouts),
           json_lastWorkoutDate =
             (case uniqueSortedDateKeys (map startedAt workouts) of
                [] \<Rightarrow> None | d # _ \<Rightarrow> Some d),
           json_totalDuration = totalDuration workouts,
           json_totalExercisesUsed = totalExercisesUsed workouts,
           json_totalSets = totalSets (aggregate workouts),
           json_totalReps = totalReps (aggregate workouts),
           json_totalVolume = totalVolume (aggregate workouts),
           json_heaviestWeight = heaviestWeight (aggregate workouts),
           json_favoriteExercise = favorite\<rparr>"
  using assms by (simp add: me_def Let_def)

text \<open>
  Claim C6. For the empty workout history the handler answers with totalWorkouts = 0,
  currentStreak = 0, no favourite exercise, heaviestWeight = 0, and totalDuration,
  totalSets, totalReps, totalVolume and totalExercisesUsed all 0 (the list of days is
  empty and there is no last workout date). The user is authenticated and the two
  queries that run succeed; the metadata of an exercise is not queried.
\<close>

theorem me_empty_history:
  "userId \<noteq> [] \<and> user_findUnique db userId = Inr user \<and>
   workout_findMany db userId = Inr [] \<longrightarrow>
   me now db (Some userId) =
     Json \<lparr>json_user = user, json_totalWorkouts = 0, json_currentStreak = 0,
           json_days = [], json_lastWorkoutDate = None, json_totalDuration = 0,
           json_totalExercisesUsed = 0, json_totalSets = 0, json_totalReps = 0,
           json_totalVolume = 0, json_heaviestWeight = 0, json_favoriteExercise = None\<rparr>"
proof
  assume a: "userId \<noteq> [] \<and> user_findUnique db userId = Inr user \<and>
   workout_findMany db userId = Inr []"
  have f: "fetchFavoriteExercise db (favoriteExerciseId (exerciseFrequency (aggregate [])))
       = Inr None"
    by (simp add: aggregate_def initialTotals_def favoriteExerciseId_def
          fetchFavoriteExercise_def)
  from a have "userId \<noteq> []" "user_findUnique db userId = Inr user"
    "workout_findMany db userId = Inr []" by simp_all
  from me_Json[OF this f, of now] show "me now db (Some userId) =
     Json \<lparr>json_user = user, json_totalWorkouts = 0, json_currentStreak = 0,
           json_days = [], json_lastWorkoutDate = None, json_totalDuration = 0,
           json_totalExercisesUsed = 0, json_totalSets = 0, json_totalReps = 0,
           json_totalVolume = 0, json_heaviestWeight = 0, json_favoriteExercise = None\<rparr>"
    by (simp add: aggregate_def initialTotals_def computeStreakFromWorkouts_def
          uniqueSortedDateKeys_def streakOfDayKeys_def totalDuration_def
          totalExercisesUsed_def exerciseIds_def)
qed

theorem me_empty_history_witness:
  "''u1'' \<noteq> [] \<and> user_findUnique (sampleDb []) ''u1'' = Inr None \<and>
   workout_findMany (sampleDb []) ''u1'' = Inr [] \<and>
   me 864000123 (sampleDb []) (Some ''u1'') =
     Json \<lparr>json_user = None, json_totalWorkouts = 0, json_currentStreak = 0,
           json_days = [], json_lastWorkoutDate = None, json_totalDuration = 0,
           json_totalExercisesUsed = 0, json_totalSets = 0, json_totalReps = 0,
           json_totalVolume = 0, json_heaviestWeight = 0, json_favoriteExercise = None\<rparr>"
  using me_empty_history[of "''u1''" "sampleDb []" None 864000123]
  by (simp add: sampleDb_def)

text \<open>
  Claim C7. When the favourite exercise identifier of a history has no metadata (the
  query finds no row), the handler still answers 200 with every other statistic as
  computed, and the favourite exercise is absent.
\<close>

theorem me_favorite_metadata_missing:
  "userId \<noteq> [] \<and> user_findUnique db userId = Inr user \<and>
   workout_findMany db userId = Inr workouts \<and>
   favoriteExerciseId (exerciseFrequency (aggregate workouts)) = Some f \<and>
   exercise_findUnique db f = Inr None \<longrightarrow>
   me now db (Some userId) =
     Json \<lparr>json_user = user,
           json_totalWorkouts = length workouts,
           json_currentStreak = computeStreakFromWorkouts now (map startedAt workouts),
           json_days = uniqueSortedDateKeys (map startedAt workouts),
           json_lastWorkoutDate =
             (case uniqueSortedDateKeys (map startedAt workouts) of
                [] \<Rightarrow> None | d # _ \<Rightarrow> Some d),
           json_totalDuration = totalDuration workouts,
           json_totalExercisesUsed = totalExercisesUsed workouts,
           json_totalSets = totalSets (aggregate workouts),
           json_totalReps = totalReps (aggregate workouts),
           json_totalVolume = totalVolume (aggregate workouts),
           json_heaviestWeight = heaviestWeight (aggregate workouts),
           json_favoriteExercise = None\<rparr>"
proof
  assume a: "userId \<noteq> [] \<and> user_findUnique db userId = Inr user \<and>
   workout_findMany db userId = Inr workouts \<and>
   favoriteExerciseId (exerciseFrequency (aggregate workouts)) = Some f \<and>
   exercise_findUnique db f = Inr None"
  then have f: "fetchFavoriteExercise db (favoriteExerciseId (exerciseFrequency (aggregate workouts)))
       = Inr None"
    by (simp add: fetchFavoriteExercise_def)
  from a have "userId \<noteq> []" "user_findUnique db userId = Inr user"
    "workout_findMany db userId = Inr workouts" by simp_all
  from me_Json[OF this f] show "me now db (Some userId) =
     Json \<lparr>json_user = user,
           json_totalWorkouts = length workouts,
           json_currentStreak = computeStreakFromWorkouts now (map startedAt workouts),
           json_days = uniqueSortedDateKeys (map startedAt workouts),
           json_lastWorkoutDate =
             (case uniqueSortedDateKeys (map startedAt workouts) of
                [] \<Rightarrow> None | d # _ \<Rightarrow> Some d),
           json_totalDuration = totalDuration workouts,
           json_totalExercisesUsed = totalExercisesUsed workouts,
           json_totalSets = totalSets (aggregate workouts),
           json_totalReps = totalReps (aggregate workouts),
           json_totalVolume = totalVolume (aggregate workouts),
           json_heaviestWeight = heaviestWeight (aggregate workouts),
           json_favoriteExercise = None\<rparr>" .
qed

theorem me_favorite_metadata_missing_witness:
  "favoriteExerciseId (exerciseFrequency (aggregate [recentWorkout, earlierWorkout]))
     = Some ''squat'' \<and>
   exercise_findUnique (sampleDb [recentWorkout, earlierWorkout]) ''squat'' = Inr None \<and>
   me 864000123 (sampleDb [recentWorkout, earlierWorkout]) (Some ''u1'') =
     Json \<lparr>json_user = None, json_totalWorkouts = 2, json_currentStreak = 2,
           json_days = [10, 9], json_lastWorkoutDate = Some 10, json_totalDuration = 60,
           json_totalExercisesUsed = 2, json_totalSets = 6, json_totalReps = 46,
           json_totalVolume = 3960, json_heaviestWeight = 110,
           json_favoriteExercise = None\<rparr>"
  using me_favorite_metadata_missing
          [of "''u1''" "sampleDb [recentWorkout, earlierWorkout]" None
              "[recentWorkout, earlierWorkout]" "''squat''" 864000123]
  by (simp add: sample_defs eval_defs)

text \<open>
  Claim C9. For a history that holds at least one workout and in which every workout has
  an empty list of exercise records, the frequency map is empty, no favourite identifier
  is set, and the handler answers with an absent favourite exercise although
  totalWorkouts is positive.
\<close>

theorem me_no_exercise_records:
  "userId \<noteq> [] \<and> user_findUnique db userId = Inr user \<and>
   workout_findMany db userId = Inr workouts \<and> workouts \<noteq> [] \<and>
   (\<forall>w\<in>set workouts. workoutExercises w = []) \<longrightarrow>
   favoriteExerciseId (exerciseFrequency (aggregate workouts)) = None \<and>
   (\<exists>p. me now db (Some userId) = Json p \<and> json_favoriteExercise p = None \<and>
        json_totalWorkouts p = length workouts \<and> 0 < json_totalWorkouts p)"
proof
  assume a: "userId \<noteq> [] \<and> user_findUnique db userId = Inr user \<and>
   workout_findMany db userId = Inr workouts \<and> workouts \<noteq> [] \<and>
   (\<forall>w\<in>set workouts. workoutExercises w = [])"
  then have "exerciseRecords workouts = []" by (simp add: exerciseRecords_empty)
  then have none: "favoriteExerciseId (exerciseFrequency (aggregate workouts)) = None"
    by (simp add: aggregate_exerciseFrequency favoriteExerciseId_def)
  then have f: "fetchFavoriteExercise db (favoriteExerciseId (exerciseFrequency (aggregate workouts)))
       = Inr None"
    by (simp add: fetchFavoriteExercise_def)
  from a have "userId \<noteq> []" "user_findUnique db userId = Inr user"
    "workout_findMany db userId = Inr workouts" by simp_all
  from me_Json[OF this f, of now] a none
  show "favoriteExerciseId (exerciseFrequency (aggregate workouts)) = None \<and>
   (\<exists>p. me now db (Some userId) = Json p \<and> json_favoriteExercise p = None \<and>
        json_totalWorkouts p = length workouts \<and> 0 < json_totalWorkouts p)"
    by simp
qed

theorem me_no_exercise_records_witness:
  "[\<lparr>workout_id = ''w0'', startedAt = 864000000, durationMinutes = Some 20,
      workoutExercises = []\<rparr>] \<noteq> [] \<and>
   favoriteExerciseId (exerciseFrequency (aggregate
     [\<lparr>workout_id = ''w0'', startedAt = 864000000, durationMinutes = Some 20,
        workoutExercises = []\<rparr>])) = None \<and>
   (\<exists>p. me 864000123
          (sampleDb [\<lparr>workout_id = ''w0'', startedAt = 864000000,
             durationMinutes = Some 20, workoutExercises = []\<rparr>]) (Some ''u1'') = Json p \<and>
        json_favoriteExercise p = None \<and> json_totalWorkouts p = 1)"
  using me_no_exercise_records
          [of "''u1''"
              "sampleDb [\<lparr>workout_id = ''w0'', startedAt = 864000000,
                 durationMinutes = Some 20, workoutExercises = []\<rparr>]"
              None
              "[\<lparr>workout_id = ''w0'', startedAt = 864000000, durationMinutes = Some 20,
                  workoutExercises = []\<rparr>]"
              864000123]
  by (auto simp: sampleDb_def)

lemma fetchFavoriteExercise_available:
  assumes "\<forall>i. exercise_findUnique db i \<noteq> Inl DbError"
  shows "\<exists>favorite. fetchFavoriteExercise db favId = Inr favorite"
proof (cases "fetchFavoriteExercise db favId")
  case (Inl e)
  then have "\<exists>i. exercise_findUnique db i = Inl e"
    by (auto simp: fetchFavoriteExercise_def split: option.splits if_splits)
  with assms show ?thesis by (cases e) auto
next
  case (Inr favorite)
  then show ?thesis by blast
qed

text \<open>
  Claim C5. For three workouts on the DayKeys today, today, today - 1 whose sets, in the
  order of the traversal, are (10 reps, weight 50), (8 reps, weight 55) and
  (12 reps, weight 80), the handler answers with totalSets = 3, totalReps = 30,
  totalVolume = 1900, heaviestWeight = 80 and currentStreak = 2. The user is
  authenticated and no query fails.
\<close>

theorem me_three_workouts_example:
  "userId \<noteq> [] \<and> user_findUnique db userId = Inr user \<and>
   workout_findMany db userId = Inr workouts \<and>
   (\<forall>i. exercise_findUnique db i \<noteq> Inl DbError) \<and>
   map (\<lambda>w. dayKey (startedAt w)) workouts = [dayKey now, dayKey now, dayKey now - 1] \<and>
   map (\<lambda>s. (repetitions s, weight s)) (setRecords workouts) = [(10, 50), (8, 55), (12, 80)] \<longrightarrow>
   (\<exists>p. me now db (Some userId) = Json p \<and>
        json_totalSets p = 3 \<and> json_totalReps p = 30 \<and> json_totalVolume p = 1900 \<and>
        json_heaviestWeight p = 80 \<and> json_currentStreak p = 2)"
proof (intro impI, elim conjE)
  assume u: "userId \<noteq> []" "user_findUnique db userId = Inr user"
    "workout_findMany db userId = Inr workouts"
  assume ok: "\<forall>i. exercise_findUnique db i \<noteq> Inl DbError"
  assume d: "map (\<lambda>w. dayKey (startedAt w)) workouts = [dayKey now, dayKey now, dayKey now - 1]"
  assume sets: "map (\<lambda>s. (repetitions s, weight s)) (setRecords workouts)
      = [(10, 50), (8, 55), (12, 80)]"
  have days: "map dayKey (map startedAt workouts) = [dayKey now, dayKey now, dayKey now - 1]"
    using d by (simp add: comp_def)
  have len: "length (setRecords workouts) = 3"
    using arg_cong[OF sets, of length] by simp
  have reps: "map repetitions (setRecords workouts) = [10, 8, 12]"
    using arg_cong[OF sets, of "map fst"] by (simp add: comp_def)
  have wts: "map weight (setRecords workouts) = [50, 55, 80]"
    using arg_cong[OF sets, of "map snd"] by (simp add: comp_def)
  have vol: "map (\<lambda>s. of_int (repetitions s) * weight s) (setRecords workouts) = [500, 440, 960]"
    using arg_cong[OF sets, of "map (\<lambda>p. of_int (fst p) * snd p)"] by (simp add: comp_def)
  have "weight ` set (setRecords workouts) = set (map weight (setRecords workouts))"
    by simp
  then have wset: "weight ` set (setRecords workouts) = {50, 55, 80}"
    unfolding wts by simp
  have heavy: "heaviestWeight (aggregate workouts) = 80"
    unfolding aggregate_heaviestWeight wset by simp
  have streak: "computeStreakFromWorkouts now (map startedAt workouts) = 2"
    unfolding computeStreakFromWorkouts_def uniqueSortedDateKeys_def days
    by (simp add: streakOfDayKeys_def)
  have s: "totalSets (aggregate workouts) = 3"
    unfolding aggregate_totalSets by (rule len)
  have r: "totalReps (aggregate workouts) = 30"
    unfolding aggregate_totalReps reps by simp
  have v: "totalVolume (aggregate workouts) = 1900"
    unfolding aggregate_totalVolume vol by simp
  from fetchFavoriteExercise_available[OF ok] obtain favorite where
    f: "fetchFavoriteExercise db (favoriteExerciseId (exerciseFrequency (aggregate workouts)))
       = Inr favorite" by blast
  show "\<exists>p. me now db (Some userId) = Json p \<and>
        json_totalSets p = 3 \<and> json_totalReps p = 30 \<and> json_totalVolume p = 1900 \<and>
        json_heaviestWeight p = 80 \<and> json_currentStreak p = 2"
    unfolding me_Json[OF u f, of now] s r v heavy streak by simp
qed

theorem me_three_workouts_example_witness:
  "map (\<lambda>w. dayKey (startedAt w)) exampleWorkouts
     = [dayKey 864000123, dayKey 864000123, dayKey 864000123 - 1] \<and>
   map (\<lambda>s. (repetitions s, weight s)) (setRecords exampleWorkouts)
     = [(10, 50), (8, 55), (12, 80)] \<and>
   (\<exists>p. me 864000123 (sampleDb exampleWorkouts) (Some ''u1'') = Json p \<and>
        json_totalSets p = 3 \<and> json_totalReps p = 30 \<and> json_totalVolume p = 1900 \<and>
        json_heaviestWeight p = 80 \<and> json_currentStreak p = 2)"
  using me_three_workouts_example
          [of "''u1''" "sampleDb exampleWorkouts" None exampleWorkouts 864000123]
  by (simp add: sampleDb_def exampleWorkouts_def setRecords_def exerciseRecords_def
        dayKey_def msPerDay_def)

end
